theory Spec2Isabelle
  imports Complex_Main
begin

section \<open>Speech activity detection pipelines\<close>

text \<open>
  A shallow embedding of \<^verbatim>\<open>pyannote/audio/pipeline/speech_activity_detection.py\<close>:
  the two pipeline classes, their constructors and their \<^verbatim>\<open>__call__\<close> methods.
  A Python exception is a value of \<open>py_error\<close>, an object whose attributes change is a
  record that the method returns updated, and every call to a collaborator that has an
  effect outside the object (a warning, a read of the precomputed store, a run of the
  pretrained model) leaves an \<open>event\<close>.
\<close>

subsection \<open>Numbers and arrays\<close>

text \<open>
  A sample of a numpy array is a floating-point number: not-a-number, an infinity or a
  finite double. A finite double is named by the real number it stands for. The theory
  does not say which reals are doubles, and on the finite values of samples it defines
  the comparisons only, which IEEE 754 carries out exactly.
\<close>

datatype npfloat = NaN | Fin real | PInf | MInf

text \<open>The comparisons \<^verbatim>\<open>x < t\<close>, \<^verbatim>\<open>x >= t\<close> and \<^verbatim>\<open>x <= t\<close> with a finite \<open>t\<close>: every comparison
  with not-a-number is false.\<close>

fun fl_lt :: "npfloat \<Rightarrow> real \<Rightarrow> bool" where
  "fl_lt NaN t = False"
| "fl_lt (Fin a) t = (a < t)"
| "fl_lt PInf t = False"
| "fl_lt MInf t = True"

fun fl_ge :: "npfloat \<Rightarrow> real \<Rightarrow> bool" where
  "fl_ge NaN t = False"
| "fl_ge (Fin a) t = (t \<le> a)"
| "fl_ge PInf t = True"
| "fl_ge MInf t = False"

fun fl_le :: "npfloat \<Rightarrow> real \<Rightarrow> bool" where
  "fl_le NaN t = False"
| "fl_le (Fin a) t = (a \<le> t)"
| "fl_le PInf t = False"
| "fl_le MInf t = True"

text \<open>
  The arithmetic of numpy on finite values rounds and overflows, and the order in which
  \<^verbatim>\<open>np.nanmean\<close> adds the values is numpy's own: the sign of the mean that it returns can
  differ from the sign of the exact mean. This arithmetic is therefore a parameter of
  the model, three functions: the mean of a list of values none of which is NaN, the
  exponential of a finite value, and 1 minus a finite value. Nothing is assumed of them
  but one fact of IEEE 754 that holds for every rounding and every order of the
  additions: the mean of values that are all zero, positive or plus infinity is not
  negative.
\<close>

typedef numpy =
  "{t :: (npfloat list \<Rightarrow> npfloat) \<times> (real \<Rightarrow> npfloat) \<times> (real \<Rightarrow> npfloat).
      \<forall>xs. list_all (\<lambda>x. fl_ge x 0) xs \<longrightarrow> \<not> fl_lt (fst t xs) 0}"
  by (intro exI [of _ "(\<lambda>xs. NaN, Fin, Fin)"]) simp

definition mean_of_values :: "numpy \<Rightarrow> npfloat list \<Rightarrow> npfloat" where
  "mean_of_values np = fst (Rep_numpy np)"

definition exp_of_finite :: "numpy \<Rightarrow> real \<Rightarrow> npfloat" where
  "exp_of_finite np = fst (snd (Rep_numpy np))"

definition one_minus_finite :: "numpy \<Rightarrow> real \<Rightarrow> npfloat" where
  "one_minus_finite np = snd (snd (Rep_numpy np))"

text \<open>\<^verbatim>\<open>np.exp\<close> and \<^verbatim>\<open>1. - x\<close> on one sample; the special values follow IEEE 754.\<close>

fun fl_exp :: "numpy \<Rightarrow> npfloat \<Rightarrow> npfloat" where
  "fl_exp np NaN = NaN"
| "fl_exp np (Fin a) = exp_of_finite np a"
| "fl_exp np PInf = PInf"
| "fl_exp np MInf = Fin 0"

fun one_minus :: "numpy \<Rightarrow> npfloat \<Rightarrow> npfloat" where
  "one_minus np NaN = NaN"
| "one_minus np (Fin a) = one_minus_finite np a"
| "one_minus np PInf = MInf"
| "one_minus np MInf = PInf"

text \<open>
  A numpy array of one dimension, or of two: \<open>Array2 d rows\<close> has shape
  \<open>(length rows, d)\<close>, one row for each sample, and is valid when every row has \<open>d\<close>
  components.
\<close>

datatype ndarray = Array1 "npfloat list" | Array2 nat "npfloat list list"

fun valid_array :: "ndarray \<Rightarrow> bool" where
  "valid_array (Array1 xs) = True"
| "valid_array (Array2 d rows) = list_all (\<lambda>r. length r = d) rows"

fun elements :: "ndarray \<Rightarrow> npfloat list" where
  "elements (Array1 xs) = xs"
| "elements (Array2 d rows) = concat rows"

fun np_exp :: "numpy \<Rightarrow> ndarray \<Rightarrow> ndarray" where
  "np_exp np (Array1 xs) = Array1 (map (fl_exp np) xs)"
| "np_exp np (Array2 d rows) = Array2 d (map (map (fl_exp np)) rows)"

text \<open>\<^verbatim>\<open>np.nanmean\<close>: the mean of the samples that are not NaN; NaN when there is none.\<close>

definition nanmean :: "numpy \<Rightarrow> ndarray \<Rightarrow> npfloat" where
  "nanmean np a =
     (let xs = filter (\<lambda>x. x \<noteq> NaN) (elements a)
      in if xs = [] then NaN else mean_of_values np xs)"

subsection \<open>Curves, timelines and annotations\<close>

type_synonym Segment = "real \<times> real"

record SlidingWindow =
  start :: real
  duration :: real
  step :: real

record SlidingWindowFeature =
  data :: ndarray
  sliding_window :: SlidingWindow

record Timeline =
  segments :: "Segment list"
  timeline_uri :: "string option"

text \<open>A label is the \<open>n\<close>-th output of the string generator of \<^verbatim>\<open>to_annotation\<close>, or a
  name given by the reference.\<close>

datatype label = Generated nat | Named string

record Annotation =
  annotation_uri :: "string option"
  modality :: "string option"
  tracks :: "(Segment \<times> label) list"

text \<open>
  Modelled from the spec: \<^verbatim>\<open>Timeline.to_annotation(generator='string', modality=...)\<close>
  is not under src/. Each interval of the timeline, in order, gets the next sequential
  label, and the result carries the timeline's file identity and the modality.
\<close>

definition to_annotation :: "string \<Rightarrow> Timeline \<Rightarrow> Annotation" where
  "to_annotation m t =
     \<lparr>annotation_uri = timeline_uri t, modality = Some m,
      tracks = map (\<lambda>(i, s). (s, Generated i)) (enumerate 0 (segments t))\<rparr>"

text \<open>
  Modelled from the spec: \<^verbatim>\<open>Annotation.get_timeline\<close> is not under src/. The timeline of
  an annotation is the collection of its intervals.
\<close>

definition get_timeline :: "Annotation \<Rightarrow> Timeline" where
  "get_timeline a = \<lparr>segments = map fst (tracks a), timeline_uri = annotation_uri a\<rparr>"

text \<open>
  Modelled from the spec: \<^verbatim>\<open>Timeline.support\<close> is not under src/. The support is the union
  of the intervals: they are taken by increasing start, and an interval that begins
  inside or at the end of the region under construction extends it.
\<close>

fun merge_support :: "Segment \<Rightarrow> Segment list \<Rightarrow> Segment list" where
  "merge_support cur [] = [cur]"
| "merge_support cur (nxt # rest) =
     (if fst nxt \<le> snd cur
      then merge_support (fst cur, max (snd cur) (snd nxt)) rest
      else cur # merge_support nxt rest)"

definition support :: "Timeline \<Rightarrow> Timeline" where
  "support t =
     (case sort_key fst (segments t) of
        [] \<Rightarrow> t\<lparr>segments := []\<rparr>
      | s # rest \<Rightarrow> t\<lparr>segments := merge_support s rest\<rparr>)"

text \<open>The points of time that a list of intervals \<open>[start, end)\<close> covers.\<close>

definition covered :: "Segment list \<Rightarrow> real set" where
  "covered ss = (\<Union>s \<in> set ss. {fst s ..< snd s})"

text \<open>Sorted, non-empty and neither overlapping nor touching.\<close>

fun separated :: "Segment list \<Rightarrow> bool" where
  "separated [] = True"
| "separated [s] = True"
| "separated (s # s' # rest) = (snd s < fst s' \<and> separated (s' # rest))"

subsection \<open>Errors, events and the file record\<close>

datatype py_error =
    ValueError string
  | NameError string
  | AttributeError string
  | IndexError string
  | KeyError string
  | TypeError string
  | OSError string

datatype event =
    Warned string
  | Precomputed_called string
  | Pretrained_called string

text \<open>The file record of \<^verbatim>\<open>pyannote.database\<close>: its identifier and, when the keys
  \<^verbatim>\<open>'annotation'\<close> and \<^verbatim>\<open>'sad_scores'\<close> are present, its reference annotation and the
  attached scores; \<^verbatim>\<open>current_file.get('sad_scores')\<close> is None as well when the key holds None.\<close>

record current_file =
  uri :: string
  annotation :: "Annotation option"
  sad_scores :: "SlidingWindowFeature option"

subsection \<open>The binarizer\<close>

text \<open>A hyper-parameter holds the range \<^verbatim>\<open>Uniform(low, high)\<close> that the constructor
  declares until the optimisation framework replaces it by a value.\<close>

datatype parameter = Uniform real real | Value real

fun value_of :: "parameter \<Rightarrow> real option" where
  "value_of (Uniform lo hi) = None"
| "value_of (Value v) = Some v"

text \<open>The object that \<^verbatim>\<open>Binarize(onset=..., ...)\<close> builds: it keeps its six arguments.\<close>

record Binarize =
  binarize_onset :: parameter
  binarize_offset :: parameter
  binarize_min_duration_on :: parameter
  binarize_min_duration_off :: parameter
  binarize_pad_onset :: parameter
  binarize_pad_offset :: parameter

text \<open>
  Modelled from the spec: \<^verbatim>\<open>pyannote.audio.utils.signal.Binarize.apply\<close> is not under src/.
  The definitions of this subsection follow the eight steps of the hysteresis binarizer
  of the specification, one definition for each.

  Steps 1 to 4: the windows are scanned in time order. Outside speech, the first window
  whose value is at or above \<open>onset\<close> opens a region at that window's start time; inside
  speech, the first window whose value is at or below \<open>offset\<close> closes the region at that
  window's start time; a region still open when the curve ends is closed at the end of
  the curve.
\<close>

fun window_times :: "real \<Rightarrow> real \<Rightarrow> 'a list \<Rightarrow> (real \<times> 'a) list" where
  "window_times t stp [] = []"
| "window_times t stp (v # vs) = (t, v) # window_times (t + stp) stp vs"

fun hysteresis :: "real \<Rightarrow> real \<Rightarrow> real \<Rightarrow> real option \<Rightarrow> (real \<times> npfloat) list \<Rightarrow> Segment list" where
  "hysteresis on off fin None [] = []"
| "hysteresis on off fin (Some b) [] = [(b, fin)]"
| "hysteresis on off fin None ((t, v) # ws) =
     (if fl_ge v on then hysteresis on off fin (Some t) ws
      else hysteresis on off fin None ws)"
| "hysteresis on off fin (Some b) ((t, v) # ws) =
     (if fl_le v off then (b, t) # hysteresis on off fin None ws
      else hysteresis on off fin (Some b) ws)"

text \<open>Step 5: padding, clipped to the curve; a region that the clipping leaves without
  length is removed.\<close>

definition pad :: "real \<Rightarrow> real \<Rightarrow> real \<Rightarrow> Segment list \<Rightarrow> Segment list" where
  "pad pad_on pad_off fin ss =
     filter (\<lambda>s. fst s < snd s)
       (map (\<lambda>s. (max 0 (fst s - pad_on), min fin (snd s + pad_off))) ss)"

text \<open>Step 6: two consecutive regions whose gap is shorter than \<open>min_duration_off\<close>
  become one.\<close>

fun merge_gaps :: "real \<Rightarrow> Segment list \<Rightarrow> Segment list" where
  "merge_gaps min_off [] = []"
| "merge_gaps min_off [s] = [s]"
| "merge_gaps min_off (s # s' # rest) =
     (if fst s' - snd s < min_off then merge_gaps min_off ((fst s, snd s') # rest)
      else s # merge_gaps min_off (s' # rest))"

text \<open>Step 7: a region shorter than \<open>min_duration_on\<close> is dropped.\<close>

definition drop_short :: "real \<Rightarrow> Segment list \<Rightarrow> Segment list" where
  "drop_short min_on ss = filter (\<lambda>s. \<not> snd s - fst s < min_on) ss"

text \<open>The samples of a speech-probability curve, one for each window, and the time at
  which its last window ends.\<close>

fun samples :: "ndarray \<Rightarrow> npfloat list" where
  "samples (Array1 xs) = xs"
| "samples (Array2 d rows) = concat rows"

definition total_duration :: "SlidingWindowFeature \<Rightarrow> real" where
  "total_duration c =
     start (sliding_window c) + real (length (samples (data c))) * step (sliding_window c)"

definition binarize ::
  "real \<Rightarrow> real \<Rightarrow> real \<Rightarrow> real \<Rightarrow> real \<Rightarrow> real \<Rightarrow> SlidingWindowFeature \<Rightarrow> Segment list" where
  "binarize on off min_on min_off pad_on pad_off c =
     drop_short min_on
       (merge_gaps min_off
         (pad pad_on pad_off (total_duration c)
           (hysteresis on off (total_duration c) None
             (window_times (start (sliding_window c)) (step (sliding_window c))
               (samples (data c))))))"

text \<open>\<^verbatim>\<open>Binarize.apply\<close>: the binarizer computes with six numbers, and an argument that is
  still a range is refused.\<close>

definition Binarize_apply :: "Binarize \<Rightarrow> SlidingWindowFeature \<Rightarrow> py_error + Timeline" where
  "Binarize_apply b c =
     (case (value_of (binarize_onset b), value_of (binarize_offset b),
            value_of (binarize_min_duration_on b), value_of (binarize_min_duration_off b),
            value_of (binarize_pad_onset b), value_of (binarize_pad_offset b)) of
        (Some on, Some off, Some min_on, Some min_off, Some pad_on, Some pad_off) \<Rightarrow>
          Inr \<lparr>segments = binarize on off min_on min_off pad_on pad_off c, timeline_uri = None\<rparr>
      | _ \<Rightarrow> Inl (TypeError ''hyper-parameter is not a number''))"

subsection \<open>OracleSpeechActivityDetection\<close>

text \<open>\<^verbatim>\<open>OracleSpeechActivityDetection.__call__\<close> (lines 53 to 68); a file record without the
  key \<^verbatim>\<open>'annotation'\<close> raises KeyError.\<close>

definition OracleSpeechActivityDetection_call :: "current_file \<Rightarrow> py_error + Annotation" where
  "OracleSpeechActivityDetection_call f =
     (case annotation f of
        None \<Rightarrow> Inl (KeyError ''annotation'')
      | Some reference \<Rightarrow>
          (let speech = support (get_timeline reference)
           in Inr (to_annotation ''speech'' speech)))"

subsection \<open>SpeechActivityDetection\<close>

text \<open>What the constructor reads outside its arguments: \<^verbatim>\<open>Path(path).exists()\<close>, which
  answers or raises (OSError for a name that the file system refuses), and
  \<^verbatim>\<open>Precomputed(path)\<close>, which builds the reader of the precomputed scores or raises. A
  reader, like a pretrained model, maps a file record to its scores or to None.\<close>

type_synonym scorer = "current_file \<Rightarrow> SlidingWindowFeature option"

record environment =
  path_exists :: "string \<Rightarrow> py_error + bool"
  Precomputed :: "string \<Rightarrow> py_error + scorer"

text \<open>The attributes of a pipeline. The attributes \<^verbatim>\<open>_precomputed\<close>, \<^verbatim>\<open>_pretrained\<close> and
  \<^verbatim>\<open>_binarize\<close> are the fields \<open>priv_precomputed\<close>, \<open>priv_pretrained\<close> and \<open>priv_binarize\<close>, and
  \<^verbatim>\<open>log_scale_\<close> is the field \<open>log_scale\<close>. These four may be unset, so each is an option:
  \<open>None\<close> means that the object has no such attribute, so that \<^verbatim>\<open>hasattr\<close> is false and
  reading it raises AttributeError.\<close>

record SpeechActivityDetection =
  precomputed :: "string option"
  priv_precomputed :: "scorer option"
  pretrained :: "string option"
  priv_pretrained :: "scorer option"
  onset :: parameter
  offset :: parameter
  min_duration_on :: parameter
  min_duration_off :: parameter
  pad_onset :: parameter
  pad_offset :: parameter
  priv_binarize :: "Binarize option"
  log_scale :: "bool option"

definition deprecation_msg :: string where
  "deprecation_msg =
     [CHR 0x22] @ ''scores'' @ [CHR 0x22] @ '' is being deprecated in favor of '' @
     [CHR 0x22] @ ''precomputed'' @ [CHR 0x22] @ ''.''"

text \<open>Lines 97 to 101: the deprecated argument \<^verbatim>\<open>scores\<close>.\<close>

definition deprecated_scores :: "string option \<Rightarrow> string option \<Rightarrow> string option \<times> event list" where
  "deprecated_scores precomputed_arg scores_arg =
     (case scores_arg of
        None \<Rightarrow> (precomputed_arg, [])
      | Some s \<Rightarrow> (Some s, [Warned deprecation_msg]))"

text \<open>Lines 103 to 105: the reader is built when a location is given.\<close>

definition load_precomputed :: "environment \<Rightarrow> string option \<Rightarrow> py_error + scorer option" where
  "load_precomputed env pre =
     (case pre of
        None \<Rightarrow> Inr None
      | Some path \<Rightarrow>
          (case Precomputed env path of
             Inl e \<Rightarrow> Inl e
           | Inr reader \<Rightarrow> Inr (Some reader)))"

text \<open>\<^verbatim>\<open>SpeechActivityDetection.__init__\<close> (lines 92 to 121). The module imports neither
  \<^verbatim>\<open>Pretrained\<close> nor \<^verbatim>\<open>torch\<close>, so each branch of lines 109 to 113 raises NameError when it
  evaluates the name; an exception of \<^verbatim>\<open>Precomputed(...)\<close> at line 105 or of \<^verbatim>\<open>exists()\<close> at
  line 109 comes first. The result is the error or the new object, with the events of
  the construction. \<^verbatim>\<open>warnings.warn\<close> is taken with the default filter, under which it
  returns.\<close>

definition init ::
  "environment \<Rightarrow> string option \<Rightarrow> string option \<Rightarrow> string option \<Rightarrow>
     (py_error + SpeechActivityDetection) \<times> event list" where
  "init env precomputed_arg scores_arg pretrained_arg =
     (case deprecated_scores precomputed_arg scores_arg of
        (pre, evs) \<Rightarrow>
          (case load_precomputed env pre of
             Inl e \<Rightarrow> (Inl e, evs)
           | Inr reader \<Rightarrow>
               (case pretrained_arg of
                  Some m \<Rightarrow>
                    (case path_exists env m of
                       Inl e \<Rightarrow> (Inl e, evs)
                     | Inr found \<Rightarrow>
                         (if found then (Inl (NameError ''Pretrained''), evs)
                          else (Inl (NameError ''torch''), evs)))
                | None \<Rightarrow>
                    (Inr \<lparr>precomputed = pre,
                          priv_precomputed = reader,
                          pretrained = None,
                          priv_pretrained = None,
                          onset = Uniform 0 1,
                          offset = Uniform 0 1,
                          min_duration_on = Uniform 0 2,
                          min_duration_off = Uniform 0 2,
                          pad_onset = Uniform (- 1) 1,
                          pad_offset = Uniform (- 1) 1,
                          priv_binarize = None,
                          log_scale = None\<rparr>, evs))))"

text \<open>\<^verbatim>\<open>SpeechActivityDetection.initialize\<close> (lines 123 to 132).\<close>

definition initialize :: "SpeechActivityDetection \<Rightarrow> SpeechActivityDetection" where
  "initialize p =
     p\<lparr>priv_binarize := Some
         \<lparr>binarize_onset = onset p,
          binarize_offset = offset p,
          binarize_min_duration_on = min_duration_on p,
          binarize_min_duration_off = min_duration_off p,
          binarize_pad_onset = pad_onset p,
          binarize_pad_offset = pad_offset p\<rparr>\<rparr>"

text \<open>
  Modelled from the spec: \<^verbatim>\<open>Pipeline.instantiate\<close> of the optimisation framework is not
  under src/. It gives each of the six run-time hyper-parameters its value and
  initializes the pipeline with them.
\<close>

record BinarizationParameters =
  param_onset :: real
  param_offset :: real
  param_min_duration_on :: real
  param_min_duration_off :: real
  param_pad_onset :: real
  param_pad_offset :: real

definition instantiate :: "BinarizationParameters \<Rightarrow> SpeechActivityDetection \<Rightarrow> SpeechActivityDetection" where
  "instantiate ps p =
     initialize
       (p\<lparr>onset := Value (param_onset ps),
          offset := Value (param_offset ps),
          min_duration_on := Value (param_min_duration_on ps),
          min_duration_off := Value (param_min_duration_off ps),
          pad_onset := Value (param_pad_onset ps),
          pad_offset := Value (param_pad_offset ps)\<rparr>)"

text \<open>Lines 149 to 158: where the scores come from. The result is what \<^verbatim>\<open>sad_scores\<close>
  holds at line 160, or the AttributeError of a reader or model that was never set.\<close>

definition get_sad_scores ::
  "SpeechActivityDetection \<Rightarrow> current_file \<Rightarrow> (py_error + SlidingWindowFeature option) \<times> event list" where
  "get_sad_scores p f =
     (case sad_scores f of
        Some s \<Rightarrow> (Inr (Some s), [])
      | None \<Rightarrow>
          (if precomputed p = None
           then (case priv_pretrained p of
                   None \<Rightarrow> (Inl (AttributeError ''_pretrained''), [])
                 | Some model \<Rightarrow> (Inr (model f), [Pretrained_called (uri f)]))
           else (case priv_precomputed p of
                   None \<Rightarrow> (Inl (AttributeError ''_precomputed''), [])
                 | Some reader \<Rightarrow> (Inr (reader f), [Precomputed_called (uri f)]))))"

text \<open>Lines 160 to 164.\<close>

definition no_scores_msg :: "current_file \<Rightarrow> string" where
  "no_scores_msg f = ''Could not get raw SAD scores for file '' @ uri f @ ''.''"

text \<open>Lines 166 to 172: the flag is computed when the object has none yet.\<close>

definition set_log_scale ::
  "numpy \<Rightarrow> SpeechActivityDetection \<Rightarrow> SlidingWindowFeature \<Rightarrow> SpeechActivityDetection" where
  "set_log_scale np p s =
     (case log_scale p of
        None \<Rightarrow> (if fl_lt (nanmean np (data s)) 0 then p\<lparr>log_scale := Some True\<rparr>
                 else p\<lparr>log_scale := Some False\<rparr>)
      | Some b \<Rightarrow> p)"

text \<open>Lines 174 and 175, read after lines 166 to 172, where the flag is set.\<close>

definition normalized_data ::
  "numpy \<Rightarrow> SpeechActivityDetection \<Rightarrow> SlidingWindowFeature \<Rightarrow> ndarray" where
  "normalized_data np p s = (if log_scale p = Some True then np_exp np (data s) else data s)"

text \<open>Lines 177 to 181: \<^verbatim>\<open>data.shape[1]\<close> of an array of one dimension raises IndexError;
  \<^verbatim>\<open>data[:, 0]\<close> is component 0 of each row.\<close>

definition speech_prob ::
  "numpy \<Rightarrow> ndarray \<Rightarrow> SlidingWindow \<Rightarrow> py_error + SlidingWindowFeature" where
  "speech_prob np d sw =
     (case d of
        Array1 xs \<Rightarrow> Inl (IndexError ''tuple index out of range'')
      | Array2 n rows \<Rightarrow>
          (if n > 1
           then Inr \<lparr>data = Array1 (map (\<lambda>r. one_minus np (r ! 0)) rows), sliding_window = sw\<rparr>
           else Inr \<lparr>data = d, sliding_window = sw\<rparr>))"

text \<open>Lines 183 to 186: reading \<^verbatim>\<open>self._binarize\<close> before \<^verbatim>\<open>initialize\<close> raises
  AttributeError.\<close>

definition binarize_and_label ::
  "SpeechActivityDetection \<Rightarrow> current_file \<Rightarrow> SlidingWindowFeature \<Rightarrow> py_error + Annotation" where
  "binarize_and_label p f sp =
     (case priv_binarize p of
        None \<Rightarrow> Inl (AttributeError ''_binarize'')
      | Some b \<Rightarrow>
          (case Binarize_apply b sp of
             Inl e \<Rightarrow> Inl e
           | Inr speech \<Rightarrow> Inr (to_annotation ''speech'' (speech\<lparr>timeline_uri := Some (uri f)\<rparr>))))"

text \<open>Lines 177 to 186: what the call does with the normalized array.\<close>

definition detect ::
  "numpy \<Rightarrow> SpeechActivityDetection \<Rightarrow> current_file \<Rightarrow> ndarray \<Rightarrow> SlidingWindow \<Rightarrow>
     py_error + Annotation" where
  "detect np p f d sw =
     (case speech_prob np d sw of
        Inl e \<Rightarrow> Inl e
      | Inr sp \<Rightarrow> binarize_and_label p f sp)"

text \<open>\<^verbatim>\<open>SpeechActivityDetection.__call__\<close> (lines 134 to 186), with the arithmetic of
  numpy: the annotation or the exception, the object after the call, and the events of
  the call.\<close>

definition SpeechActivityDetection_call ::
  "numpy \<Rightarrow> SpeechActivityDetection \<Rightarrow> current_file \<Rightarrow>
     (py_error + Annotation) \<times> SpeechActivityDetection \<times> event list" where
  "SpeechActivityDetection_call np p f =
     (case get_sad_scores p f of
        (Inl e, evs) \<Rightarrow> (Inl e, p, evs)
      | (Inr None, evs) \<Rightarrow> (Inl (ValueError (no_scores_msg f)), p, evs)
      | (Inr (Some s), evs) \<Rightarrow>
          (let p' = set_log_scale np p s;
               d = normalized_data np p' s
           in (detect np p' f d (sliding_window s), p', evs)))"

text \<open>A sequence of calls on one object: the results in order, and the object at the end.\<close>

fun calls ::
  "numpy \<Rightarrow> SpeechActivityDetection \<Rightarrow> current_file list \<Rightarrow>
     (py_error + Annotation) list \<times> SpeechActivityDetection" where
  "calls np p [] = ([], p)"
| "calls np p (f # fs) =
     (case SpeechActivityDetection_call np p f of
        (r, p', evs) \<Rightarrow> (case calls np p' fs of (rs, q) \<Rightarrow> (r # rs, q)))"

section \<open>Example inputs\<close>

text \<open>Concrete file records and pipelines at which the theorems below are instantiated.\<close>

text \<open>Arithmetic without rounding, one instance of the parameter: exact sums, quotients,
  exponentials and differences of the reals that the finite values stand for.\<close>

fun fl_add :: "npfloat \<Rightarrow> npfloat \<Rightarrow> npfloat" where
  "fl_add NaN y = NaN"
| "fl_add x NaN = NaN"
| "fl_add (Fin a) (Fin b) = Fin (a + b)"
| "fl_add (Fin a) PInf = PInf"
| "fl_add (Fin a) MInf = MInf"
| "fl_add PInf (Fin b) = PInf"
| "fl_add PInf PInf = PInf"
| "fl_add PInf MInf = NaN"
| "fl_add MInf (Fin b) = MInf"
| "fl_add MInf MInf = MInf"
| "fl_add MInf PInf = NaN"

fun fl_div_count :: "npfloat \<Rightarrow> nat \<Rightarrow> npfloat" where
  "fl_div_count (Fin a) n = Fin (a / real n)"
| "fl_div_count x n = x"

definition exact_mean :: "npfloat list \<Rightarrow> npfloat" where
  "exact_mean xs = fl_div_count (foldr fl_add xs (Fin 0)) (length xs)"

definition exact_numpy :: numpy where
  "exact_numpy = Abs_numpy (exact_mean, (\<lambda>a. Fin (exp a)), (\<lambda>a. Fin (1 - a)))"

definition example_reference :: Annotation where
  "example_reference =
     \<lparr>annotation_uri = Some ''file1'', modality = Some ''speaker'',
      tracks = [((0, 2), Named ''alice''), ((1, 3), Named ''bob'')]\<rparr>"

definition example_reference_file :: current_file where
  "example_reference_file =
     \<lparr>uri = ''file1'', annotation = Some example_reference, sad_scores = None\<rparr>"

definition scenario_curve :: SlidingWindowFeature where
  "scenario_curve =
     \<lparr>data = Array2 1 [[Fin (1/10)], [Fin (1/10)], [Fin (9/10)], [Fin (9/10)], [Fin (9/10)],
                        [Fin (2/10)], [Fin (2/10)], [Fin (9/10)], [Fin (9/10)], [Fin (1/10)]],
      sliding_window = \<lparr>start = 0, duration = 1, step = 1\<rparr>\<rparr>"

definition scenario_parameters :: BinarizationParameters where
  "scenario_parameters =
     \<lparr>param_onset = 1/2, param_offset = 1/2, param_min_duration_on = 0,
      param_min_duration_off = 2, param_pad_onset = 0, param_pad_offset = 0\<rparr>"

definition scenario_file :: current_file where
  "scenario_file = \<lparr>uri = ''file1'', annotation = None, sad_scores = Some scenario_curve\<rparr>"

definition example_reader :: scorer where
  "example_reader = (\<lambda>f. if uri f = ''file1'' then Some scenario_curve else None)"

definition example_environment :: environment where
  "example_environment =
     \<lparr>path_exists =
        (\<lambda>path. if 255 < length path then Inl (OSError ''File name too long'')
                else Inr (path = ''models/sad'')),
      Precomputed = (\<lambda>path. Inr example_reader)\<rparr>"


definition default_pipeline :: SpeechActivityDetection where
  "default_pipeline =
     \<lparr>precomputed = None, priv_precomputed = None, pretrained = None, priv_pretrained = None,
      onset = Uniform 0 1, offset = Uniform 0 1,
      min_duration_on = Uniform 0 2, min_duration_off = Uniform 0 2,
      pad_onset = Uniform (- 1) 1, pad_offset = Uniform (- 1) 1,
      priv_binarize = None, log_scale = None\<rparr>"

definition log_curve :: SlidingWindowFeature where
  "log_curve =
     \<lparr>data = Array2 2 [[Fin 0, MInf], [MInf, Fin 0]],
      sliding_window = \<lparr>start = 0, duration = 1, step = 1\<rparr>\<rparr>"

definition log_file :: current_file where
  "log_file = \<lparr>uri = ''file2'', annotation = None, sad_scores = Some log_curve\<rparr>"

definition nan_curve :: SlidingWindowFeature where
  "nan_curve =
     \<lparr>data = Array2 1 [[NaN], [NaN], [NaN]],
      sliding_window = \<lparr>start = 0, duration = 1, step = 1\<rparr>\<rparr>"

definition nan_file :: current_file where
  "nan_file = \<lparr>uri = ''file3'', annotation = None, sad_scores = Some nan_curve\<rparr>"

definition instantiated_pipeline :: SpeechActivityDetection where
  "instantiated_pipeline = instantiate scenario_parameters default_pipeline"

definition bare_file :: current_file where
  "bare_file = \<lparr>uri = ''file1'', annotation = None, sad_scores = None\<rparr>"

definition missing_file :: current_file where
  "missing_file = \<lparr>uri = ''file9'', annotation = None, sad_scores = None\<rparr>"

definition precomputed_pipeline :: SpeechActivityDetection where
  "precomputed_pipeline =
     \<lparr>precomputed = Some ''scores'',
      priv_precomputed = Some example_reader,
      pretrained = None, priv_pretrained = None,
      onset = Uniform 0 1, offset = Uniform 0 1,
      min_duration_on = Uniform 0 2, min_duration_off = Uniform 0 2,
      pad_onset = Uniform (- 1) 1, pad_offset = Uniform (- 1) 1,
      priv_binarize = None, log_scale = None\<rparr>"

definition example_model :: scorer where
  "example_model = (\<lambda>f. Some log_curve)"

definition pretrained_pipeline :: SpeechActivityDetection where
  "pretrained_pipeline = default_pipeline\<lparr>priv_pretrained := Some example_model\<rparr>"

definition both_sources_pipeline :: SpeechActivityDetection where
  "both_sources_pipeline = precomputed_pipeline\<lparr>priv_pretrained := Some example_model\<rparr>"

definition two_class_rows :: "npfloat list list" where
  "two_class_rows = [[Fin (1/4), Fin (3/4)], [Fin (1/2), Fin (1/2)], [NaN, Fin 0]]"

definition one_dim_curve :: SlidingWindowFeature where
  "one_dim_curve =
     \<lparr>data = Array1 [Fin (1/4), Fin (3/4)],
      sliding_window = \<lparr>start = 0, duration = 1, step = 1\<rparr>\<rparr>"

definition one_dim_file :: current_file where
  "one_dim_file = \<lparr>uri = ''file4'', annotation = None, sad_scores = Some one_dim_curve\<rparr>"

section \<open>Properties\<close>

subsection \<open>Numbers and arrays\<close>


lemma elements_np_exp: "elements (np_exp np a) = map (fl_exp np) (elements a)"
  by (cases a) (simp_all add: map_concat)

lemma mean_not_negative:
  "list_all (\<lambda>x. fl_ge x 0) xs \<Longrightarrow> \<not> fl_lt (mean_of_values np xs) 0"
  using Rep_numpy [of np] by (simp add: mean_of_values_def)

lemma nanmean_not_negative:
  assumes "list_all (\<lambda>x. x = NaN \<or> fl_ge x 0) (elements a)"
  shows "\<not> fl_lt (nanmean np a) 0"
proof -
  have "list_all (\<lambda>x. fl_ge x 0) (filter (\<lambda>x. x \<noteq> NaN) (elements a))"
    using assms by (auto simp add: list_all_iff)
  then show ?thesis
    by (simp add: nanmean_def Let_def mean_not_negative)
qed

lemma nanmean_all_nan: "\<forall>x \<in> set (elements a). x = NaN \<Longrightarrow> nanmean np a = NaN"
  by (simp add: nanmean_def filter_empty_conv)

lemma samples_single_column:
  "list_all (\<lambda>r. length r = 1) rows \<Longrightarrow> concat rows = map (\<lambda>r. r ! 0) rows"
proof (induction rows)
  case Nil
  show ?case by simp
next
  case (Cons r rows)
  then obtain x where "r = [x]" by (cases r) auto
  with Cons show ?case by simp
qed

subsection \<open>The arithmetic without rounding\<close>

lemma exact_sum_not_negative:
  "list_all (\<lambda>x. fl_ge x 0) xs \<Longrightarrow> fl_ge (foldr fl_add xs (Fin 0)) 0"
proof (induction xs)
  case Nil
  show ?case by simp
next
  case (Cons x xs)
  then have x: "fl_ge x 0" and r: "fl_ge (foldr fl_add xs (Fin 0)) 0" by simp_all
  show ?case
    using x r by (cases x; cases "foldr fl_add xs (Fin 0)") simp_all
qed

lemma exact_mean_not_negative:
  assumes "list_all (\<lambda>x. fl_ge x 0) xs"
  shows "\<not> fl_lt (exact_mean xs) 0"
  using exact_sum_not_negative [OF assms]
  by (cases "foldr fl_add xs (Fin 0)")
    (simp_all add: exact_mean_def not_less divide_nonneg_nonneg)

lemma Rep_exact_numpy:
  "Rep_numpy exact_numpy = (exact_mean, (\<lambda>a. Fin (exp a)), (\<lambda>a. Fin (1 - a)))"
  by (simp add: exact_numpy_def Abs_numpy_inverse exact_mean_not_negative)

lemma exact_numpy_mean: "mean_of_values exact_numpy xs = exact_mean xs"
  by (simp add: mean_of_values_def Rep_exact_numpy)

lemma exact_numpy_exp: "exp_of_finite exact_numpy a = Fin (exp a)"
  by (simp add: exp_of_finite_def Rep_exact_numpy)

lemma exact_numpy_one_minus: "one_minus_finite exact_numpy a = Fin (1 - a)"
  by (simp add: one_minus_finite_def Rep_exact_numpy)

subsection \<open>The example inputs\<close>

lemma init_default: "init example_environment None None None = (Inr default_pipeline, [])"
  by (simp add: init_def deprecated_scores_def load_precomputed_def default_pipeline_def)

lemma init_precomputed:
  "init example_environment (Some ''scores'') None None = (Inr precomputed_pipeline, [])"
  by (simp add: init_def deprecated_scores_def load_precomputed_def example_environment_def
      precomputed_pipeline_def)

lemma scenario_not_negative: "\<not> fl_lt (nanmean np (data scenario_curve)) 0"
  by (rule nanmean_not_negative) (simp add: scenario_curve_def)

lemma scenario_nanmean: "nanmean exact_numpy (data scenario_curve) = Fin (13/25)"
  by (simp add: nanmean_def scenario_curve_def exact_numpy_mean exact_mean_def)

lemma log_curve_nanmean: "nanmean exact_numpy (data log_curve) = MInf"
  by (simp add: nanmean_def log_curve_def exact_numpy_mean exact_mean_def)

lemma log_curve_exp:
  "np_exp exact_numpy (data log_curve) = Array2 2 [[Fin 1, Fin 0], [Fin 0, Fin 1]]"
  by (simp add: log_curve_def exact_numpy_exp)

lemma scenario_raw:
  "hysteresis (1/2) (1/2) 10 None (window_times 0 1 (samples (data scenario_curve)))
     = [(2, 5), (7, 9)]"
  by (simp add: scenario_curve_def)

lemma scenario_binarize:
  "binarize (1/2) (1/2) 0 2 0 0 scenario_curve = [(2, 5), (7, 9)]"
  by (simp add: binarize_def scenario_curve_def total_duration_def pad_def drop_short_def)

lemma scenario_apply:
  "Binarize_apply
     \<lparr>binarize_onset = Value (1/2), binarize_offset = Value (1/2),
      binarize_min_duration_on = Value 0, binarize_min_duration_off = Value 2,
      binarize_pad_onset = Value 0, binarize_pad_offset = Value 0\<rparr> scenario_curve
   = Inr \<lparr>segments = [(2, 5), (7, 9)], timeline_uri = None\<rparr>"
  by (simp add: Binarize_apply_def scenario_binarize)

subsection \<open>The support of a timeline and the oracle\<close>

lemma merge_support_nonempty: "merge_support cur rest \<noteq> []"
  by (induction rest arbitrary: cur) auto

lemma merge_support_hd: "fst (hd (merge_support cur rest)) = fst cur"
  by (induction rest arbitrary: cur) auto

lemma separated_Cons:
  "ss \<noteq> [] \<Longrightarrow> snd s < fst (hd ss) \<Longrightarrow> separated ss \<Longrightarrow> separated (s # ss)"
  by (cases ss) auto

lemma separated_merge_support: "separated (merge_support cur rest)"
proof (induction rest arbitrary: cur)
  case Nil
  show ?case by simp
next
  case (Cons nxt rest)
  show ?case
  proof (cases "fst nxt \<le> snd cur")
    case True
    then show ?thesis using Cons.IH by simp
  next
    case False
    then have "snd cur < fst (hd (merge_support nxt rest))"
      by (simp add: merge_support_hd)
    then show ?thesis
      using False Cons.IH [of nxt] merge_support_nonempty [of nxt rest]
      by (simp add: separated_Cons)
  qed
qed

lemma covered_Cons: "covered (s # ss) = {fst s ..< snd s} \<union> covered ss"
  by (simp add: covered_def)

lemma covered_merge_support:
  "sorted (map fst (cur # rest)) \<Longrightarrow> covered (merge_support cur rest) = covered (cur # rest)"
proof (induction rest arbitrary: cur)
  case Nil
  show ?case by simp
next
  case (Cons nxt rest)
  have le: "fst cur \<le> fst nxt" using Cons.prems by simp
  show ?case
  proof (cases "fst nxt \<le> snd cur")
    case True
    have "sorted (map fst ((fst cur, max (snd cur) (snd nxt)) # rest))"
      using Cons.prems by auto
    then have "covered (merge_support (fst cur, max (snd cur) (snd nxt)) rest)
                 = {fst cur ..< max (snd cur) (snd nxt)} \<union> covered rest"
      using Cons.IH by (simp add: covered_Cons)
    moreover have "{fst cur ..< max (snd cur) (snd nxt)}
                     = {fst cur ..< snd cur} \<union> {fst nxt ..< snd nxt}"
      using le True by auto
    ultimately show ?thesis using True by (simp add: covered_Cons Un_assoc)
  next
    case False
    have "sorted (map fst (nxt # rest))" using Cons.prems by simp
    then show ?thesis using False Cons.IH [of nxt] by (simp add: covered_Cons)
  qed
qed

lemma covered_set: "set xs = set ys \<Longrightarrow> covered xs = covered ys"
  by (simp add: covered_def)

lemma support_covered: "covered (segments (support t)) = covered (segments t)"
proof (cases "sort_key fst (segments t)")
  case Nil
  then have "segments t = []"
    by (metis length_sort list.size(3) length_0_conv)
  then show ?thesis using Nil by (simp add: support_def)
next
  case (Cons s rest)
  have "sorted (map fst (s # rest))"
    using sorted_sort_key [of fst "segments t"] Cons by simp
  then have "covered (merge_support s rest) = covered (s # rest)"
    by (rule covered_merge_support)
  also have "\<dots> = covered (segments t)"
    using Cons by (intro covered_set) (metis set_sort)
  finally show ?thesis using Cons by (simp add: support_def)
qed

lemma support_separated: "separated (segments (support t))"
  by (cases "sort_key fst (segments t)") (simp_all add: support_def separated_merge_support)

lemma to_annotation_segments: "map fst (tracks (to_annotation m t)) = segments t"
  by (simp add: to_annotation_def map_fst_enumerate comp_def case_prod_unfold)

lemma to_annotation_labels:
  "map snd (tracks (to_annotation m t)) = map Generated [0 ..< length (segments t)]"
proof -
  have "map snd (tracks (to_annotation m t)) = map (Generated \<circ> fst) (enumerate 0 (segments t))"
    by (simp add: to_annotation_def comp_def case_prod_unfold)
  also have "\<dots> = map Generated (map fst (enumerate 0 (segments t)))"
    by (simp only: map_map)
  also have "\<dots> = map Generated [0 ..< length (segments t)]"
    by (simp only: map_fst_enumerate add_0)
  finally show ?thesis .
qed

text \<open>
  Claim C7. For a file record that carries a reference annotation, the oracle returns an
  annotation of modality speech whose regions are the support of the reference's
  intervals: they cover exactly the points of time that the reference covers, they are
  in increasing order and neither overlap nor touch, and they carry the sequential
  labels. For the reference made of \<open>[0,2)\<close> and \<open>[1,3)\<close> the only region is \<open>[0,3)\<close>.
\<close>

theorem oracle_returns_support:
  assumes "annotation f = Some reference"
  shows "\<exists>a. OracleSpeechActivityDetection_call f = Inr a
           \<and> modality a = Some ''speech''
           \<and> covered (map fst (tracks a)) = covered (map fst (tracks reference))
           \<and> separated (map fst (tracks a))
           \<and> map snd (tracks a) = map Generated [0 ..< length (tracks a)]
           \<and> (map fst (tracks reference) = [(0, 2), (1, 3)] \<or>
               map fst (tracks reference) = [(1, 3), (0, 2)] \<longrightarrow>
                 map fst (tracks a) = [(0, 3)])"
proof -
  let ?t = "support (get_timeline reference)"
  let ?a = "to_annotation ''speech'' ?t"
  have call: "OracleSpeechActivityDetection_call f = Inr ?a"
    using assms by (simp add: OracleSpeechActivityDetection_call_def)
  have segs: "map fst (tracks ?a) = segments ?t"
    by (rule to_annotation_segments)
  have ref: "segments (get_timeline reference) = map fst (tracks reference)"
    by (simp add: get_timeline_def)
  have m: "modality ?a = Some ''speech''"
    by (simp add: to_annotation_def)
  have c: "covered (map fst (tracks ?a)) = covered (map fst (tracks reference))"
    using support_covered [of "get_timeline reference"] by (simp only: segs ref)
  have s: "separated (map fst (tracks ?a))"
    using support_separated [of "get_timeline reference"] by (simp only: segs)
  have len: "length (tracks ?a) = length (segments ?t)"
    using arg_cong [OF segs, of length] by simp
  have l: "map snd (tracks ?a) = map Generated [0 ..< length (tracks ?a)]"
    using to_annotation_labels [of "''speech''" ?t] by (simp only: len)
  have e: "map fst (tracks reference) = [(0, 2), (1, 3)] \<or>
           map fst (tracks reference) = [(1, 3), (0, 2)] \<longrightarrow>
             map fst (tracks ?a) = [(0, 3)]"
    unfolding segs by (auto simp add: support_def ref)
  from call m c s l e show ?thesis
    by (intro exI [of _ ?a] conjI) assumption+
qed

theorem oracle_returns_support_witness:
  "annotation example_reference_file = Some example_reference
   \<and> OracleSpeechActivityDetection_call example_reference_file =
       Inr \<lparr>annotation_uri = Some ''file1'', modality = Some ''speech'',
            tracks = [((0, 3), Generated 0)]\<rparr>"
proof -
  have h: "annotation example_reference_file = Some example_reference"
    by (simp add: example_reference_file_def)
  have r: "map fst (tracks example_reference) = [(0, 2), (1, 3)]"
    by (simp add: example_reference_def)
  from oracle_returns_support [OF h] obtain a where
    a: "OracleSpeechActivityDetection_call example_reference_file = Inr a"
    and i: "map fst (tracks example_reference) = [(0, 2), (1, 3)] \<or>
            map fst (tracks example_reference) = [(1, 3), (0, 2)] \<longrightarrow>
              map fst (tracks a) = [(0, 3)]"
    by (elim exE conjE)
  from i r have "map fst (tracks a) = [(0, 3)]" by simp
  moreover have "OracleSpeechActivityDetection_call example_reference_file =
       Inr \<lparr>annotation_uri = Some ''file1'', modality = Some ''speech'',
            tracks = [((0, 3), Generated 0)]\<rparr>"
    by (simp add: OracleSpeechActivityDetection_call_def example_reference_file_def
        example_reference_def support_def get_timeline_def to_annotation_def)
  ultimately show ?thesis using h by simp
qed

subsection \<open>The constructor\<close>

lemma instantiate_binarize:
  "priv_binarize (instantiate ps p) = Some
     \<lparr>binarize_onset = Value (param_onset ps),
      binarize_offset = Value (param_offset ps),
      binarize_min_duration_on = Value (param_min_duration_on ps),
      binarize_min_duration_off = Value (param_min_duration_off ps),
      binarize_pad_onset = Value (param_pad_onset ps),
      binarize_pad_offset = Value (param_pad_offset ps)\<rparr>"
  by (simp add: instantiate_def initialize_def)

lemma instantiate_log_scale: "log_scale (instantiate ps p) = log_scale p"
  by (simp add: instantiate_def initialize_def)


lemma instantiated_log_scale: "log_scale instantiated_pipeline = None"
  by (simp add: instantiated_pipeline_def instantiate_log_scale default_pipeline_def)



text \<open>
  Claim C8. A constructor call with the deprecated argument \<^verbatim>\<open>scores\<close> emits exactly one
  warning, the deprecation message, and from there on behaves as the call with that
  value for \<^verbatim>\<open>precomputed\<close> and no \<^verbatim>\<open>scores\<close>: the same error or the same object, whose
  \<^verbatim>\<open>precomputed\<close> attribute is the value and whose reader is built from it. Without the
  argument there is no warning. The object being the same, every later call on it is the
  same: the alias adds nothing to the detection.
\<close>

theorem deprecated_scores_alias:
  "snd (init env pre (Some sc) pt) = [Warned deprecation_msg]
   \<and> fst (init env pre (Some sc) pt) = fst (init env (Some sc) None pt)
   \<and> snd (init env pre None pt) = []
   \<and> (fst (init env pre (Some sc) pt) = Inr p \<longrightarrow>
        precomputed p = Some sc
        \<and> (\<exists>reader. Precomputed env sc = Inr reader \<and> priv_precomputed p = Some reader)
        \<and> fst (init env (Some sc) None pt) = Inr p)"
  by (cases pt)
    (auto simp add: init_def deprecated_scores_def load_precomputed_def
      split: sum.splits option.splits)

theorem deprecated_scores_alias_witness:
  "init example_environment (Some ''old'') (Some ''scores'') None =
     (Inr precomputed_pipeline, [Warned deprecation_msg])
   \<and> init example_environment (Some ''scores'') None None = (Inr precomputed_pipeline, [])
   \<and> precomputed precomputed_pipeline = Some ''scores''
   \<and> Precomputed example_environment ''scores'' = Inr example_reader
   \<and> priv_precomputed precomputed_pipeline = Some example_reader"
proof -
  note t = deprecated_scores_alias [of example_environment "Some ''old''" "''scores''" None
      precomputed_pipeline]
  have "fst (init example_environment (Some ''old'') (Some ''scores'') None) = Inr precomputed_pipeline"
    using t init_precomputed by simp
  moreover have "snd (init example_environment (Some ''old'') (Some ''scores'') None) =
      [Warned deprecation_msg]"
    using t by simp
  ultimately show ?thesis
    using init_precomputed
    by (simp add: prod_eq_iff precomputed_pipeline_def example_environment_def)
qed

subsection \<open>Where the scores come from\<close>

lemma attached_scores: "sad_scores f = Some s \<Longrightarrow> get_sad_scores p f = (Inr (Some s), [])"
  by (simp add: get_sad_scores_def)


lemma call_with_scores:
  "get_sad_scores p f = (Inr (Some s), evs) \<Longrightarrow>
   SpeechActivityDetection_call np p f =
     (detect np (set_log_scale np p s) f (normalized_data np (set_log_scale np p s) s) (sliding_window s),
      set_log_scale np p s, evs)"
  by (simp add: SpeechActivityDetection_call_def Let_def)

lemma call_without_scores:
  "get_sad_scores p f = (Inr None, evs) \<Longrightarrow>
   SpeechActivityDetection_call np p f = (Inl (ValueError (no_scores_msg f)), p, evs)"
  by (simp add: SpeechActivityDetection_call_def)

lemma call_source_error:
  "get_sad_scores p f = (Inl e, evs) \<Longrightarrow>
   SpeechActivityDetection_call np p f = (Inl e, p, evs)"
  by (simp add: SpeechActivityDetection_call_def)


text \<open>
  Claim C4 says that the three sources are tried in order and that the first one that
  is not null wins. Lines 152 to 158 choose one source by the configuration and never
  go on from the store to the model: on a pipeline that has both, with a store that has
  nothing for the file and a model that has a curve for it, the model is not run and
  the call fails.
\<close>

theorem no_fall_through_counterexample:
  "sad_scores missing_file = None
   \<and> precomputed both_sources_pipeline = Some ''scores''
   \<and> priv_precomputed both_sources_pipeline = Some example_reader
   \<and> example_reader missing_file = None
   \<and> priv_pretrained both_sources_pipeline = Some example_model
   \<and> example_model missing_file = Some log_curve
   \<and> SpeechActivityDetection_call exact_numpy both_sources_pipeline missing_file =
       (Inl (ValueError ''Could not get raw SAD scores for file file9.''),
        both_sources_pipeline, [Precomputed_called ''file9''])"
  by (simp add: missing_file_def both_sources_pipeline_def precomputed_pipeline_def
      example_reader_def example_model_def SpeechActivityDetection_call_def get_sad_scores_def
      no_scores_msg_def)

text \<open>
  Claim C4, amended. The order in which a call looks for its curve. (1) A curve attached
  to the file record is the one used, and neither the store nor the model is consulted.
  (2) Otherwise, when a precomputed location is configured, the store's reader is called
  once for the file and its answer is final: a curve is used, and on None the call
  fails with the ValueError of the missing scores without running the model, whether
  the pipeline has one or not. (3) Otherwise, no location being configured, the
  pretrained model is run once on the file and its answer is the outcome. The curve so
  resolved is the one that the call normalizes and binarizes.
\<close>

theorem score_resolution_order:
  "(sad_scores f = Some s \<longrightarrow> get_sad_scores p f = (Inr (Some s), []))
   \<and> (sad_scores f = None \<and> precomputed p = Some path \<and> priv_precomputed p = Some reader \<longrightarrow>
        get_sad_scores p f = (Inr (reader f), [Precomputed_called (uri f)]))
   \<and> (sad_scores f = None \<and> precomputed p = Some path \<and> priv_precomputed p = Some reader
        \<and> reader f = None \<longrightarrow>
        SpeechActivityDetection_call np p f =
          (Inl (ValueError (no_scores_msg f)), p, [Precomputed_called (uri f)]))
   \<and> (sad_scores f = None \<and> precomputed p = None \<and> priv_pretrained p = Some model \<longrightarrow>
        get_sad_scores p f = (Inr (model f), [Pretrained_called (uri f)]))
   \<and> (get_sad_scores p f = (Inr (Some s), evs) \<longrightarrow>
        SpeechActivityDetection_call np p f =
          (detect np (set_log_scale np p s) f (normalized_data np (set_log_scale np p s) s)
             (sliding_window s),
           set_log_scale np p s, evs))"
proof -
  have "get_sad_scores p f = (Inr None, [Precomputed_called (uri f)])"
    if "sad_scores f = None \<and> precomputed p = Some path \<and> priv_precomputed p = Some reader
        \<and> reader f = None"
    using that by (simp add: get_sad_scores_def)
  then show ?thesis
    by (auto simp add: get_sad_scores_def call_with_scores call_without_scores)
qed

theorem score_resolution_order_witness:
  "sad_scores scenario_file = Some scenario_curve
   \<and> get_sad_scores precomputed_pipeline scenario_file = (Inr (Some scenario_curve), [])
   \<and> sad_scores bare_file = None
   \<and> precomputed precomputed_pipeline = Some ''scores''
   \<and> priv_precomputed precomputed_pipeline = Some example_reader
   \<and> get_sad_scores precomputed_pipeline bare_file =
       (Inr (Some scenario_curve), [Precomputed_called ''file1''])
   \<and> sad_scores missing_file = None
   \<and> example_reader missing_file = None
   \<and> SpeechActivityDetection_call exact_numpy precomputed_pipeline missing_file =
       (Inl (ValueError ''Could not get raw SAD scores for file file9.''),
        precomputed_pipeline, [Precomputed_called ''file9''])
   \<and> precomputed pretrained_pipeline = None
   \<and> priv_pretrained pretrained_pipeline = Some example_model
   \<and> get_sad_scores pretrained_pipeline bare_file =
       (Inr (Some log_curve), [Pretrained_called ''file1''])"
proof -
  have a: "sad_scores scenario_file = Some scenario_curve" by (simp add: scenario_file_def)
  have b: "sad_scores bare_file = None" by (simp add: bare_file_def)
  have b': "sad_scores missing_file = None" by (simp add: missing_file_def)
  have c: "precomputed precomputed_pipeline = Some ''scores''"
    and d: "priv_precomputed precomputed_pipeline = Some example_reader"
    by (simp_all add: precomputed_pipeline_def)
  have e: "precomputed pretrained_pipeline = None"
    and g: "priv_pretrained pretrained_pipeline = Some example_model"
    by (simp_all add: pretrained_pipeline_def default_pipeline_def)
  have u: "uri bare_file = ''file1''" by (simp add: bare_file_def)
  have u': "uri missing_file = ''file9''" by (simp add: missing_file_def)
  have r: "example_reader bare_file = Some scenario_curve"
    by (simp add: example_reader_def bare_file_def)
  have r': "example_reader missing_file = None"
    by (simp add: example_reader_def missing_file_def)
  have m: "example_model bare_file = Some log_curve" by (simp add: example_model_def)
  have one: "get_sad_scores precomputed_pipeline scenario_file = (Inr (Some scenario_curve), [])"
    using score_resolution_order [where f = scenario_file and s = scenario_curve
        and p = precomputed_pipeline] a by simp
  have two: "get_sad_scores precomputed_pipeline bare_file =
       (Inr (Some scenario_curve), [Precomputed_called ''file1''])"
    using score_resolution_order [where f = bare_file and p = precomputed_pipeline
        and path = "''scores''" and reader = example_reader] b c d u r by simp
  have three: "SpeechActivityDetection_call exact_numpy precomputed_pipeline missing_file =
       (Inl (ValueError ''Could not get raw SAD scores for file file9.''),
        precomputed_pipeline, [Precomputed_called ''file9''])"
    using score_resolution_order [where f = missing_file and p = precomputed_pipeline
        and path = "''scores''" and reader = example_reader and np = exact_numpy] b' c d u' r'
    by (simp add: no_scores_msg_def)
  have four: "get_sad_scores pretrained_pipeline bare_file =
       (Inr (Some log_curve), [Pretrained_called ''file1''])"
    using score_resolution_order [where f = bare_file and p = pretrained_pipeline
        and model = example_model] b e g u m by simp
  from a b b' c d e g r' one two three four show ?thesis by simp
qed

text \<open>
  Claim C5 says that a call for which none of the three sources yields a curve fails
  with an error that names the file. The pipeline that the constructor builds from its
  default arguments has neither a reader nor a model; on a file without attached scores
  no source yields anything, and the call fails with the AttributeError of the missing
  attribute \<^verbatim>\<open>_pretrained\<close>, which does not name the file.
\<close>

theorem no_source_counterexample:
  "init example_environment None None None = (Inr default_pipeline, [])
   \<and> sad_scores bare_file = None
   \<and> precomputed instantiated_pipeline = None
   \<and> pretrained instantiated_pipeline = None
   \<and> SpeechActivityDetection_call exact_numpy instantiated_pipeline bare_file =
       (Inl (AttributeError ''_pretrained''), instantiated_pipeline, [])"
  by (simp add: init_default bare_file_def instantiated_pipeline_def instantiate_def
      initialize_def default_pipeline_def SpeechActivityDetection_call_def get_sad_scores_def)

text \<open>
  Claim C5, amended. When no curve is attached to the file and the source that the call
  consults (the reader of the store when a location is configured, the pretrained model
  otherwise) exists and returns None, the call fails with the ValueError whose message
  contains the file's identifier; the error is the outcome of the call and no
  annotation is returned; the source was consulted exactly once; the pipeline is left as
  it was.
\<close>

theorem missing_scores_error:
  assumes "sad_scores f = None"
    and "(if precomputed p = None then priv_pretrained p else priv_precomputed p) = Some source"
    and "source f = None"
  shows "SpeechActivityDetection_call np p f =
           (Inl (ValueError (''Could not get raw SAD scores for file '' @ uri f @ ''.'')), p,
            [if precomputed p = None then Pretrained_called (uri f)
             else Precomputed_called (uri f)])"
proof -
  have "get_sad_scores p f =
          (Inr None, [if precomputed p = None then Pretrained_called (uri f)
                      else Precomputed_called (uri f)])"
    using assms by (auto simp add: get_sad_scores_def split: if_splits)
  then show ?thesis by (simp add: call_without_scores no_scores_msg_def)
qed

theorem missing_scores_error_witness:
  "sad_scores missing_file = None
   \<and> precomputed precomputed_pipeline \<noteq> None
   \<and> priv_precomputed precomputed_pipeline = Some example_reader
   \<and> example_reader missing_file = None
   \<and> SpeechActivityDetection_call exact_numpy precomputed_pipeline missing_file =
       (Inl (ValueError ''Could not get raw SAD scores for file file9.''), precomputed_pipeline,
        [Precomputed_called ''file9''])"
proof -
  have a: "sad_scores missing_file = None" by (simp add: missing_file_def)
  have c: "precomputed precomputed_pipeline \<noteq> None"
    and d: "priv_precomputed precomputed_pipeline = Some example_reader"
    by (simp_all add: precomputed_pipeline_def)
  have s: "(if precomputed precomputed_pipeline = None then priv_pretrained precomputed_pipeline
                 else priv_precomputed precomputed_pipeline)
                = Some example_reader"
    using c d by auto
  have r: "example_reader missing_file = None"
    by (simp add: example_reader_def missing_file_def)
  have u: "uri missing_file = ''file9''" by (simp add: missing_file_def)
  show ?thesis
    using missing_scores_error [OF a s r, of exact_numpy] a c d r u by simp
qed

subsection \<open>The log-scale flag\<close>

lemma set_log_scale_cached: "log_scale p = Some b \<Longrightarrow> set_log_scale np p s = p"
  by (simp add: set_log_scale_def)

lemma set_log_scale_first:
  "log_scale p = None \<Longrightarrow>
   set_log_scale np p s = p\<lparr>log_scale := Some (fl_lt (nanmean np (data s)) 0)\<rparr>"
  by (simp add: set_log_scale_def)

lemma call_keeps_cached:
  assumes "log_scale p = Some b"
  shows "fst (snd (SpeechActivityDetection_call np p f)) = p"
proof (cases "get_sad_scores p f")
  case (Pair r evs)
  show ?thesis
  proof (cases r)
    case (Inl e)
    with Pair show ?thesis by (simp add: call_source_error)
  next
    case (Inr sc)
    show ?thesis
    proof (cases sc)
      case None
      with Pair Inr show ?thesis by (simp add: call_without_scores)
    next
      case (Some s)
      with Pair Inr have "get_sad_scores p f = (Inr (Some s), evs)" by simp
      from call_with_scores [OF this] show ?thesis
        by (simp add: set_log_scale_cached [OF assms])
    qed
  qed
qed

lemma calls_Cons:
  "snd (calls np p (f # fs)) = snd (calls np (fst (snd (SpeechActivityDetection_call np p f))) fs)"
  by (simp split: prod.splits)

lemma calls_keep_cached: "log_scale p = Some b \<Longrightarrow> snd (calls np p fs) = p"
proof (induction fs)
  case Nil
  show ?case by simp
next
  case (Cons f fs)
  have "fst (snd (SpeechActivityDetection_call np p f)) = p"
    using Cons.prems by (rule call_keeps_cached)
  then have "snd (calls np p (f # fs)) = snd (calls np p fs)"
    by (simp only: calls_Cons)
  then show ?case using Cons by simp
qed

lemma call_cached:
  assumes "log_scale p = Some b" and "get_sad_scores p f = (Inr (Some s), evs)"
  shows "SpeechActivityDetection_call np p f =
           (detect np p f (if b then np_exp np (data s) else data s) (sliding_window s), p, evs)"
  using assms by (simp add: call_with_scores set_log_scale_cached normalized_data_def)

lemma call_first:
  assumes "log_scale p = None" and "get_sad_scores p f = (Inr (Some s), evs)"
  shows "SpeechActivityDetection_call np p f =
           (detect np (p\<lparr>log_scale := Some (fl_lt (nanmean np (data s)) 0)\<rparr>) f
              (if fl_lt (nanmean np (data s)) 0 then np_exp np (data s) else data s) (sliding_window s),
            p\<lparr>log_scale := Some (fl_lt (nanmean np (data s)) 0)\<rparr>, evs)"
  using assms by (simp add: call_with_scores set_log_scale_first normalized_data_def)

lemma calls_after_first:
  assumes "log_scale p = None" and "get_sad_scores p f = (Inr (Some s), evs)"
  shows "snd (calls np p (f # fs)) = p\<lparr>log_scale := Some (fl_lt (nanmean np (data s)) 0)\<rparr>"
proof -
  let ?p' = "p\<lparr>log_scale := Some (fl_lt (nanmean np (data s)) 0)\<rparr>"
  have "fst (snd (SpeechActivityDetection_call np p f)) = ?p'"
    by (simp add: call_first [OF assms])
  then have "snd (calls np p (f # fs)) = snd (calls np ?p' fs)"
    by (simp only: calls_Cons)
  also have "\<dots> = ?p'"
    by (rule calls_keep_cached [of _ "fl_lt (nanmean np (data s)) 0"]) simp
  finally show ?thesis .
qed






text \<open>
  Claim C2. Let the first curve be presented to a pipeline without flag, and let any
  sequence of calls follow. The object at the end is the first object with the flag of
  the first curve and nothing else changed; no further call changes it, whatever its
  outcome; and a call that then presents a curve normalizes it by that flag, with no
  regard to the curve's own mean.
\<close>

theorem log_scale_cached:
  fixes np p f s evs fs
  defines "flag \<equiv> fl_lt (nanmean np (data s)) 0"
  defines "q \<equiv> snd (calls np p (f # fs))"
  assumes "log_scale p = None" and "get_sad_scores p f = (Inr (Some s), evs)"
  shows "q = p\<lparr>log_scale := Some flag\<rparr>
         \<and> (\<forall>g. fst (snd (SpeechActivityDetection_call np q g)) = q)
         \<and> (\<forall>g s' evs'. get_sad_scores q g = (Inr (Some s'), evs') \<longrightarrow>
              SpeechActivityDetection_call np q g =
                (detect np q g (if flag then np_exp np (data s') else data s') (sliding_window s'),
                 q, evs'))"
proof -
  have q: "q = p\<lparr>log_scale := Some flag\<rparr>"
    unfolding q_def flag_def using assms(3,4) by (rule calls_after_first)
  then have c: "log_scale q = Some flag" by simp
  show ?thesis
    using q call_keeps_cached [OF c] call_cached [OF c] by blast
qed

theorem log_scale_cached_witness:
  "log_scale instantiated_pipeline = None
   \<and> get_sad_scores instantiated_pipeline log_file = (Inr (Some log_curve), [])
   \<and> snd (calls exact_numpy instantiated_pipeline [log_file, nan_file]) =
       instantiated_pipeline\<lparr>log_scale := Some True\<rparr>
   \<and> fl_ge (nanmean exact_numpy (data scenario_curve)) 0
   \<and> SpeechActivityDetection_call exact_numpy (instantiated_pipeline\<lparr>log_scale := Some True\<rparr>) scenario_file =
       (detect exact_numpy (instantiated_pipeline\<lparr>log_scale := Some True\<rparr>) scenario_file
          (np_exp exact_numpy (data scenario_curve)) (sliding_window scenario_curve),
        instantiated_pipeline\<lparr>log_scale := Some True\<rparr>, [])"
proof -
  let ?q = "instantiated_pipeline\<lparr>log_scale := Some True\<rparr>"
  have g1: "get_sad_scores instantiated_pipeline log_file = (Inr (Some log_curve), [])"
    by (rule attached_scores) (simp add: log_file_def)
  have g2: "get_sad_scores ?q scenario_file = (Inr (Some scenario_curve), [])"
    by (rule attached_scores) (simp add: scenario_file_def)
  have m1: "fl_lt (nanmean exact_numpy (data log_curve)) 0" by (simp add: log_curve_nanmean)
  have m2: "fl_ge (nanmean exact_numpy (data scenario_curve)) 0" by (simp add: scenario_nanmean)
  note t = log_scale_cached [OF instantiated_log_scale g1,
      where np = exact_numpy and fs = "[nan_file]"]
  from t have q: "snd (calls exact_numpy instantiated_pipeline [log_file, nan_file]) = ?q"
    using m1 by simp
  from t have "\<forall>g s' evs'. get_sad_scores ?q g = (Inr (Some s'), evs') \<longrightarrow>
              SpeechActivityDetection_call exact_numpy ?q g =
                (detect exact_numpy ?q g (np_exp exact_numpy (data s')) (sliding_window s'), ?q, evs')"
    unfolding q using m1 by simp
  with g2 have "SpeechActivityDetection_call exact_numpy ?q scenario_file =
       (detect exact_numpy ?q scenario_file (np_exp exact_numpy (data scenario_curve)) (sliding_window scenario_curve), ?q, [])"
    by blast
  with q g1 m2 instantiated_log_scale show ?thesis by simp
qed

text \<open>
  Claim C10. When every value of the first curve is NaN (an empty array included),
  \<^verbatim>\<open>np.nanmean\<close> is NaN, the comparison with 0 is false, the flag is cached as False and
  the curve goes on without exponentiation; after any sequence of further calls the
  flag is still False, and every later curve goes on unchanged as well.
\<close>

theorem all_nan_first_curve:
  fixes np p f s evs fs
  defines "q \<equiv> p\<lparr>log_scale := Some False\<rparr>"
  assumes "log_scale p = None" and "get_sad_scores p f = (Inr (Some s), evs)"
    and "\<forall>x \<in> set (elements (data s)). x = NaN"
  shows "nanmean np (data s) = NaN
         \<and> \<not> fl_lt (nanmean np (data s)) 0
         \<and> SpeechActivityDetection_call np p f = (detect np q f (data s) (sliding_window s), q, evs)
         \<and> snd (calls np p (f # fs)) = q
         \<and> (\<forall>g s' evs'. get_sad_scores q g = (Inr (Some s'), evs') \<longrightarrow>
              SpeechActivityDetection_call np q g =
                (detect np q g (data s') (sliding_window s'), q, evs'))"
proof -
  have n: "nanmean np (data s) = NaN" using assms(4) by (rule nanmean_all_nan)
  then have l: "\<not> fl_lt (nanmean np (data s)) 0" by simp
  have c: "SpeechActivityDetection_call np p f = (detect np q f (data s) (sliding_window s), q, evs)"
    using call_first [OF assms(2,3)] l by (simp add: q_def)
  have a: "snd (calls np p (f # fs)) = q"
    using calls_after_first [OF assms(2,3), of np fs] l by (simp add: q_def)
  have "log_scale q = Some False" by (simp add: q_def)
  from call_cached [OF this] have
    "\<forall>g s' evs'. get_sad_scores q g = (Inr (Some s'), evs') \<longrightarrow>
       SpeechActivityDetection_call np q g = (detect np q g (data s') (sliding_window s'), q, evs')"
    by simp
  with n l c a show ?thesis by blast
qed

theorem all_nan_first_curve_witness:
  "log_scale instantiated_pipeline = None
   \<and> get_sad_scores instantiated_pipeline nan_file = (Inr (Some nan_curve), [])
   \<and> list_all (\<lambda>x. x = NaN) (elements (data nan_curve))
   \<and> snd (calls exact_numpy instantiated_pipeline [nan_file, scenario_file]) =
       instantiated_pipeline\<lparr>log_scale := Some False\<rparr>
   \<and> fl_lt (nanmean exact_numpy (data log_curve)) 0
   \<and> SpeechActivityDetection_call exact_numpy (instantiated_pipeline\<lparr>log_scale := Some False\<rparr>) log_file =
       (detect exact_numpy (instantiated_pipeline\<lparr>log_scale := Some False\<rparr>) log_file
          (data log_curve) (sliding_window log_curve),
        instantiated_pipeline\<lparr>log_scale := Some False\<rparr>, [])"
proof -
  let ?q = "instantiated_pipeline\<lparr>log_scale := Some False\<rparr>"
  have g1: "get_sad_scores instantiated_pipeline nan_file = (Inr (Some nan_curve), [])"
    by (rule attached_scores) (simp add: nan_file_def)
  have g2: "get_sad_scores ?q log_file = (Inr (Some log_curve), [])"
    by (rule attached_scores) (simp add: log_file_def)
  have n: "\<forall>x \<in> set (elements (data nan_curve)). x = NaN" by (simp add: nan_curve_def)
  have n': "list_all (\<lambda>x. x = NaN) (elements (data nan_curve))" by (simp add: nan_curve_def)
  have m1: "fl_lt (nanmean exact_numpy (data log_curve)) 0" by (simp add: log_curve_nanmean)
  note t = all_nan_first_curve [OF instantiated_log_scale g1 n,
      where np = exact_numpy and fs = "[scenario_file]"]
  from t have q: "snd (calls exact_numpy instantiated_pipeline [nan_file, scenario_file]) = ?q" by blast
  from t g2 have "SpeechActivityDetection_call exact_numpy ?q log_file =
       (detect exact_numpy ?q log_file (data log_curve) (sliding_window log_curve), ?q, [])"
    by blast
  with q g1 n' m1 instantiated_log_scale show ?thesis by simp
qed

subsection \<open>The column collapse\<close>

text \<open>
  Claim C3 speaks of every normalized array and of samples with exactly one component.
  A curve of one dimension has one scalar for each sample, and line 178 reads
  \<^verbatim>\<open>data.shape[1]\<close>, which such an array does not have: the call raises IndexError after
  the flag was set, and no curve reaches the binarizer.
\<close>

theorem one_dimension_counterexample:
  "sad_scores one_dim_file = Some one_dim_curve
   \<and> data one_dim_curve = Array1 [Fin (1/4), Fin (3/4)]
   \<and> SpeechActivityDetection_call exact_numpy instantiated_pipeline one_dim_file =
       (Inl (IndexError ''tuple index out of range''),
        instantiated_pipeline\<lparr>log_scale := Some False\<rparr>, [])"
proof -
  have g: "get_sad_scores instantiated_pipeline one_dim_file = (Inr (Some one_dim_curve), [])"
    by (rule attached_scores) (simp add: one_dim_file_def)
  have m: "nanmean exact_numpy (data one_dim_curve) = Fin (1/2)"
    by (simp add: nanmean_def one_dim_curve_def exact_numpy_mean exact_mean_def)
  have "SpeechActivityDetection_call exact_numpy instantiated_pipeline one_dim_file =
       (Inl (IndexError ''tuple index out of range''),
        instantiated_pipeline\<lparr>log_scale := Some False\<rparr>, [])"
  proof -
    have d: "detect exact_numpy (instantiated_pipeline\<lparr>log_scale := Some False\<rparr>) one_dim_file
        (data one_dim_curve) (sliding_window one_dim_curve) =
        Inl (IndexError ''tuple index out of range'')"
      by (simp add: detect_def speech_prob_def one_dim_curve_def)
    from call_first [OF instantiated_log_scale g, of exact_numpy] show ?thesis
      by (simp add: m d)
  qed
  then show ?thesis by (simp add: one_dim_file_def one_dim_curve_def)
qed

text \<open>
  Claim C3, amended. What the call does with a normalized array of two dimensions, one
  row of components for each sample. With more than one component, the curve handed to
  the binarizer has one value for each sample, 1 minus component 0 of that sample, in
  the arithmetic of numpy. With exactly one component, the array itself is handed over,
  and the values the binarizer reads are the samples' single components.
\<close>

theorem column_collapse:
  "(1 < n \<longrightarrow>
      detect np p f (Array2 n rows) sw =
        binarize_and_label p f
          \<lparr>data = Array1 (map (\<lambda>r. one_minus np (r ! 0)) rows), sliding_window = sw\<rparr>
      \<and> samples (Array1 (map (\<lambda>r. one_minus np (r ! 0)) rows)) = map (\<lambda>r. one_minus np (r ! 0)) rows)
   \<and> (valid_array (Array2 1 rows) \<longrightarrow>
      detect np p f (Array2 1 rows) sw =
        binarize_and_label p f \<lparr>data = Array2 1 rows, sliding_window = sw\<rparr>
      \<and> samples (Array2 1 rows) = map (\<lambda>r. r ! 0) rows)"
  by (simp add: detect_def speech_prob_def samples_single_column)

theorem column_collapse_witness:
  "(1::nat) < 2
   \<and> detect exact_numpy instantiated_pipeline bare_file (Array2 2 two_class_rows)
         \<lparr>start = 0, duration = 1, step = 1\<rparr> =
       binarize_and_label instantiated_pipeline bare_file
         \<lparr>data = Array1 [Fin (3/4), Fin (1/2), NaN],
          sliding_window = \<lparr>start = 0, duration = 1, step = 1\<rparr>\<rparr>
   \<and> valid_array (data scenario_curve)
   \<and> detect exact_numpy instantiated_pipeline bare_file (data scenario_curve)
         (sliding_window scenario_curve) =
       binarize_and_label instantiated_pipeline bare_file scenario_curve
   \<and> samples (data scenario_curve) =
       [Fin (1/10), Fin (1/10), Fin (9/10), Fin (9/10), Fin (9/10),
        Fin (2/10), Fin (2/10), Fin (9/10), Fin (9/10), Fin (1/10)]"
proof -
  have v: "valid_array (data scenario_curve)" by (simp add: scenario_curve_def)
  have d: "data scenario_curve =
      Array2 1 [[Fin (1/10)], [Fin (1/10)], [Fin (9/10)], [Fin (9/10)], [Fin (9/10)],
                [Fin (2/10)], [Fin (2/10)], [Fin (9/10)], [Fin (9/10)], [Fin (1/10)]]"
    by (simp add: scenario_curve_def)
  have e: "\<lparr>data = data scenario_curve, sliding_window = sliding_window scenario_curve\<rparr> =
      scenario_curve"
    by simp
  have one: "detect exact_numpy instantiated_pipeline bare_file (Array2 2 two_class_rows)
         \<lparr>start = 0, duration = 1, step = 1\<rparr> =
       binarize_and_label instantiated_pipeline bare_file
         \<lparr>data = Array1 [Fin (3/4), Fin (1/2), NaN],
          sliding_window = \<lparr>start = 0, duration = 1, step = 1\<rparr>\<rparr>"
    using column_collapse [where n = 2 and np = exact_numpy and p = instantiated_pipeline
        and f = bare_file and rows = two_class_rows
        and sw = "\<lparr>start = 0, duration = 1, step = 1\<rparr>"]
    by (simp add: two_class_rows_def exact_numpy_one_minus)
  have two: "detect exact_numpy instantiated_pipeline bare_file (data scenario_curve)
         (sliding_window scenario_curve) =
       binarize_and_label instantiated_pipeline bare_file scenario_curve
     \<and> samples (data scenario_curve) =
       [Fin (1/10), Fin (1/10), Fin (9/10), Fin (9/10), Fin (9/10),
        Fin (2/10), Fin (2/10), Fin (9/10), Fin (9/10), Fin (1/10)]"
    using column_collapse [where n = 2 and np = exact_numpy and p = instantiated_pipeline
        and f = bare_file and sw = "sliding_window scenario_curve"] v e
    unfolding d by simp
  from one two v show ?thesis by simp
qed

subsection \<open>The pretrained model\<close>




subsection \<open>The concrete scenario\<close>

text \<open>
  Claim C6. The curve sampled every second for ten seconds with the values
  0.1, 0.1, 0.9, 0.9, 0.9, 0.2, 0.2, 0.9, 0.9, 0.1, binarized with onset 0.5, offset 0.5,
  no padding, \<open>min_duration_on = 0\<close> and \<open>min_duration_off = 2\<close>: the raw regions are \<open>[2,5)\<close>
  and \<open>[7,9)\<close>, the merge step leaves them apart (their gap of 2 is not shorter than 2),
  the binarizer returns exactly these two, and so does the call of a pipeline that has
  no cached flag, is instantiated with these parameters and finds the curve attached to
  the file.
\<close>

theorem concrete_scenario:
  assumes "log_scale p = None"
  shows "hysteresis (1/2) (1/2) 10 None (window_times 0 1 (samples (data scenario_curve)))
           = [(2, 5), (7, 9)]
         \<and> merge_gaps 2 [(2, 5), (7, 9)] = [(2, 5), (7, 9)]
         \<and> binarize (1/2) (1/2) 0 2 0 0 scenario_curve = [(2, 5), (7, 9)]
         \<and> fst (SpeechActivityDetection_call np (instantiate scenario_parameters p) scenario_file)
           = Inr \<lparr>annotation_uri = Some ''file1'', modality = Some ''speech'',
                  tracks = [((2, 5), Generated 0), ((7, 9), Generated 1)]\<rparr>"
proof -
  let ?q = "instantiate scenario_parameters p"
  have s: "get_sad_scores ?q scenario_file = (Inr (Some scenario_curve), [])"
    by (simp add: get_sad_scores_def scenario_file_def)
  have l: "set_log_scale np ?q scenario_curve = ?q\<lparr>log_scale := Some False\<rparr>"
    using assms by (simp add: set_log_scale_def instantiate_log_scale scenario_not_negative)
  have n: "normalized_data np (?q\<lparr>log_scale := Some False\<rparr>) scenario_curve = data scenario_curve"
    by (simp add: normalized_data_def)
  have d: "data scenario_curve = Array2 1 (case data scenario_curve of Array2 k rows \<Rightarrow> rows | Array1 xs \<Rightarrow> [])"
    by (simp add: scenario_curve_def)
  have sp: "speech_prob np (data scenario_curve) (sliding_window scenario_curve) = Inr scenario_curve"
    by (subst d) (simp add: speech_prob_def scenario_curve_def)
  have b: "binarize_and_label (?q\<lparr>log_scale := Some False\<rparr>) scenario_file scenario_curve
             = Inr \<lparr>annotation_uri = Some ''file1'', modality = Some ''speech'',
                  tracks = [((2, 5), Generated 0), ((7, 9), Generated 1)]\<rparr>"
    by (simp add: binarize_and_label_def instantiate_binarize scenario_parameters_def
        scenario_apply to_annotation_def scenario_file_def)
  have "fst (SpeechActivityDetection_call np ?q scenario_file)
           = Inr \<lparr>annotation_uri = Some ''file1'', modality = Some ''speech'',
                  tracks = [((2, 5), Generated 0), ((7, 9), Generated 1)]\<rparr>"
    by (simp add: call_with_scores [OF s] l n detect_def sp b)
  moreover have "merge_gaps 2 [(2, 5), (7, 9)] = [(2::real, 5::real), (7, 9)]" by simp
  ultimately show ?thesis using scenario_raw scenario_binarize by simp
qed

theorem concrete_scenario_witness:
  "log_scale default_pipeline = None
   \<and> SpeechActivityDetection_call exact_numpy (instantiate scenario_parameters default_pipeline) scenario_file
     = (Inr \<lparr>annotation_uri = Some ''file1'', modality = Some ''speech'',
             tracks = [((2, 5), Generated 0), ((7, 9), Generated 1)]\<rparr>,
        (instantiate scenario_parameters default_pipeline)\<lparr>log_scale := Some False\<rparr>, [])"
proof -
  have h: "log_scale default_pipeline = None" by (simp add: default_pipeline_def)
  let ?q = "instantiate scenario_parameters default_pipeline"
  have r: "fst (SpeechActivityDetection_call exact_numpy ?q scenario_file)
           = Inr \<lparr>annotation_uri = Some ''file1'', modality = Some ''speech'',
                  tracks = [((2, 5), Generated 0), ((7, 9), Generated 1)]\<rparr>"
    using concrete_scenario [OF h, of exact_numpy] by simp
  have s: "get_sad_scores ?q scenario_file = (Inr (Some scenario_curve), [])"
    by (simp add: get_sad_scores_def scenario_file_def)
  have l: "set_log_scale exact_numpy ?q scenario_curve = ?q\<lparr>log_scale := Some False\<rparr>"
    using h by (simp add: set_log_scale_def instantiate_log_scale scenario_nanmean)
  have "snd (SpeechActivityDetection_call exact_numpy ?q scenario_file) = (?q\<lparr>log_scale := Some False\<rparr>, [])"
    by (simp add: call_with_scores [OF s] l)
  with r h show ?thesis by (simp add: prod_eq_iff)
qed

end
